theory Spec2Isabelle
  imports Complex_Main
begin

section \<open>JavaScript values used by the handlers of index.js\<close>

text \<open>
  A string-valued property that may be missing (\<open>undefined\<close> or \<open>null\<close>) is a
  \<open>string option\<close>. JavaScript's truthiness test on such a value (\<open>!q\<close>,
  \<open>if (userId)\<close>, \<open>a || b\<close>) holds for a present, non-empty string only.
  Characters are the code units of the source's strings; the units above 127 that occur in
  the source's literals are written \<open>CHR 0x..\<close>.

  Lines 30, 82, 87, 89, 91 and 106 write their strings as \<open>f'...{x}...'\<close>, which is
  not JavaScript. The model reads the two that it reaches (lines 30 and 82) as the template
  strings \<open>`...${x}...`\<close> that lines 33, 48 and 64 use; each reading is one definition
  (\<open>libre_endpoint\<close>, \<open>disposition\<close>).

  Built-in conversions of the runtime that the model does not compute are parameters of
  the handlers that call them: \<open>String.prototype.toUpperCase\<close>, \<open>Number\<close> on a
  string, and the text of a number that is not a small non-negative integer.
\<close>

definition truthy :: "string option \<Rightarrow> bool" where
  "truthy v = (case v of None \<Rightarrow> False | Some s \<Rightarrow> s \<noteq> [])"

text \<open>
  The outcome of awaiting a promise: it rejects (the \<open>await\<close> throws) or resolves with
  a value.
\<close>

datatype 'a awaited = Rejected | Resolved 'a

text \<open>
  A row of the users table, as the queries of lines 98 and 103 return it (\<open>uid\<close> is
  the column \<open>id\<close>).

  What a handler sends: a status with a JSON or text payload. \<open>res.json\<close> and
  \<open>res.send\<close> without \<open>res.status\<close> answer with status 200. \<open>Uncaught\<close> is an
  exception that leaves the handler before any response is written.
\<close>

record user =
  uid :: string
  email :: string
  points :: int
  level :: int
  is_premium :: bool

datatype payload =
    ErrorJson string
  | Translation "string option" string
  | Plain string
  | Received
  | UserRow "user option"

datatype reply = Reply nat payload | Uncaught string

section \<open>Process configuration\<close>

record config =
  STRIPE_SECRET_KEY :: "string option"
  STRIPE_WEBHOOK_SECRET :: "string option"
  DEEPL_API_KEY :: "string option"
  LIBRETRANSLATE_URL :: "string option"

text \<open>Line 11: the payment client exists exactly when the secret key is truthy.\<close>

definition stripe :: "config \<Rightarrow> bool" where
  "stripe cfg = truthy (STRIPE_SECRET_KEY cfg)"

section \<open>POST /api/translate\<close>

text \<open>
  The two upstream services are outside the program: each \<open>axios.post\<close> is a parameter
  that maps the arguments the handler passes to the awaited outcome. The response bodies
  are the parts the handler inspects: \<open>data\<close> (falsy as \<open>None\<close>),
  \<open>data.translations\<close> (missing as \<open>None\<close>), its entries (a falsy entry as
  \<open>None\<close>) with their \<open>text\<close>, and \<open>data.translatedText\<close>.
\<close>

datatype deepl_item = Item (item_text: "string option")

datatype deepl_data = DeeplData (data_translations: "deepl_item option list option")

datatype libre_data = LibreData (translatedText: "string option")

record upstream =
  deepl_post :: "string \<Rightarrow> string \<Rightarrow> string \<Rightarrow> string \<Rightarrow> deepl_data option awaited"
  libre_post :: "string \<Rightarrow> string \<Rightarrow> string \<Rightarrow> string \<Rightarrow> libre_data option awaited"

record translate_body =
  q :: "string option"
  source :: "string option"
  target :: "string option"

text \<open>\<open>dlRes.data && dlRes.data.translations && dlRes.data.translations[0]\<close>\<close>

definition deepl_first :: "deepl_data option \<Rightarrow> deepl_item option" where
  "deepl_first d =
     (case d of
        None \<Rightarrow> None
      | Some dd \<Rightarrow>
          (case data_translations dd of
             None \<Rightarrow> None
           | Some [] \<Rightarrow> None
           | Some (i # _) \<Rightarrow> i))"

text \<open>\<open>lt.data && lt.data.translatedText\<close>\<close>

definition libre_text :: "libre_data option \<Rightarrow> string option" where
  "libre_text d =
     (case d of
        None \<Rightarrow> None
      | Some dd \<Rightarrow> (if truthy (translatedText dd) then translatedText dd else None))"

text \<open>The marker of line 33, \<open>(Uebersetzung benoetigt API)\<close> with its two umlauts.\<close>

text \<open>
  The first argument of line 30, \<open>f"{process.env.LIBRETRANSLATE_URL}/translate"\<close>, read
  as the template string \<open>`${process.env.LIBRETRANSLATE_URL}/translate`\<close>.
\<close>

definition libre_endpoint :: "string \<Rightarrow> string" where
  "libre_endpoint url = url @ ''/translate''"

definition marker :: string where
  "marker = ''('' @ [CHR 0xDC] @ ''bersetzung ben'' @ [CHR 0xF6] @ ''tigt API) ''"

text \<open>
  Each of the two guarded blocks of the \<open>try\<close> either throws (\<open>Rejected\<close>), returns a
  response (\<open>Resolved (Some r)\<close>) or falls through to the next statement
  (\<open>Resolved None\<close>). \<open>toUpperCase\<close> is the runtime's conversion.
\<close>

definition deepl_step ::
  "(string \<Rightarrow> string) \<Rightarrow> config \<Rightarrow> upstream \<Rightarrow> string \<Rightarrow> string \<Rightarrow> string \<Rightarrow> reply option awaited" where
  "deepl_step toUpperCase cfg up qv sv tv =
     (if truthy (DEEPL_API_KEY cfg) then
        (case deepl_post up (the (DEEPL_API_KEY cfg)) qv (toUpperCase sv) (toUpperCase tv) of
           Rejected \<Rightarrow> Rejected
         | Resolved d \<Rightarrow>
             (case deepl_first d of
                None \<Rightarrow> Resolved None
              | Some i \<Rightarrow> Resolved (Some (Reply 200 (Translation (item_text i) ''deepl'')))))
      else Resolved None)"

definition libre_step :: "config \<Rightarrow> upstream \<Rightarrow> string \<Rightarrow> string \<Rightarrow> string \<Rightarrow> reply option awaited" where
  "libre_step cfg up qv sv tv =
     (if truthy (LIBRETRANSLATE_URL cfg) then
        (case libre_post up (libre_endpoint (the (LIBRETRANSLATE_URL cfg))) qv sv tv of
           Rejected \<Rightarrow> Rejected
         | Resolved d \<Rightarrow>
             (case libre_text d of
                None \<Rightarrow> Resolved None
              | Some t \<Rightarrow> Resolved (Some (Reply 200 (Translation (Some t) ''libre'')))))
      else Resolved None)"

definition translate ::
  "(string \<Rightarrow> string) \<Rightarrow> config \<Rightarrow> upstream \<Rightarrow> translate_body \<Rightarrow> reply" where
  "translate toUpperCase cfg up b =
     (if truthy (q b) \<and> truthy (source b) \<and> truthy (target b) then
        (case deepl_step toUpperCase cfg up (the (q b)) (the (source b)) (the (target b)) of
           Rejected \<Rightarrow> Reply 500 (ErrorJson ''Translation failed'')
         | Resolved (Some r) \<Rightarrow> r
         | Resolved None \<Rightarrow>
             (case libre_step cfg up (the (q b)) (the (source b)) (the (target b)) of
                Rejected \<Rightarrow> Reply 500 (ErrorJson ''Translation failed'')
              | Resolved (Some r) \<Rightarrow> r
              | Resolved None \<Rightarrow>
                  Reply 200 (Translation (Some (marker @ the (q b))) ''none'')))
      else Reply 400 (ErrorJson ''Missing q/source/target''))"

section \<open>The store behind db.query\<close>

text \<open>
  The module \<open>./db\<close> and the schema are not part of the source file; the statements the
  handlers send are. The store holds the rows of the two tables the statements name.
\<close>

record purchase =
  user_id :: "string option"
  provider :: string
  provider_id :: string
  amount :: int
  currency :: string

record db =
  users :: "user list"
  purchases :: "purchase list"

text \<open>
  A \<open>db.query\<close> promise can reject for reasons that are the storage engine's own (a lost
  connection, a value the engine refuses for a column, a \<open>user_id\<close> that references no
  user). These are inputs of the model: one flag for each statement of the webhook handler,
  true when the engine fails that statement.
\<close>

record faults =
  update_fails :: bool
  insert_fails :: bool

definition no_faults :: faults where
  "no_faults = \<lparr>update_fails = False, insert_fails = False\<rparr>"

datatype stmt = UpdatePremium string | InsertPurchase purchase

definition ledger_key :: "purchase \<Rightarrow> string \<times> string" where
  "ledger_key p = (provider p, provider_id p)"

text \<open>\<open>UPDATE users SET is_premium = true WHERE id = $1\<close>\<close>

definition set_premium :: "string \<Rightarrow> user list \<Rightarrow> user list" where
  "set_premium u us = map (\<lambda>x. if uid x = u then x\<lparr>is_premium := True\<rparr> else x) us"

text \<open>
  Modelled from the spec: the schema of the purchases table is missing from the source; the
  spec's persisted state layout gives it "a uniqueness constraint on (provider, providerId)".
  The \<open>INSERT\<close> of line 71 has no conflict clause, so under that constraint the engine
  rejects a row whose pair is already in the ledger, and appends any other row.
  \<open>None\<close> is the rejected promise.
\<close>

fun exec :: "faults \<Rightarrow> stmt \<Rightarrow> db \<Rightarrow> db option" where
  "exec f (UpdatePremium u) d =
     (if update_fails f then None else Some (d\<lparr>users := set_premium u (users d)\<rparr>))"
| "exec f (InsertPurchase p) d =
     (if insert_fails f \<or> ledger_key p \<in> set (map ledger_key (purchases d)) then None
      else Some (d\<lparr>purchases := purchases d @ [p]\<rparr>))"

section \<open>POST /webhook\<close>

datatype metadata = Metadata (userId: "string option")

record session =
  session_id :: string
  session_metadata :: "metadata option"
  amount_total :: "int option"
  session_currency :: "string option"

record event =
  event_type :: string
  data_object :: session

text \<open>
  \<open>req.body\<close> as a handler finds it: the buffer that \<open>bodyParser.raw\<close> read
  (\<open>Raw\<close>, the bytes as text), the value that \<open>bodyParser.json\<close> parsed from the
  bytes (\<open>Parsed\<close>, tagged with the text it was parsed from), or what is there when no
  parser read the request (\<open>NoPayload\<close>: an empty object or \<open>undefined\<close>, by the
  parser's version).
\<close>

datatype req_body = NoPayload | Parsed string | Raw string

record request =
  headers :: "string \<rightharpoonup> string"
  body :: req_body

text \<open>
  Line 57: \<open>req.headers.get ? req.headers.get('stripe-signature') :
  req.headers['stripe-signature']\<close>. The headers are an object keyed by header name, so
  \<open>req.headers.get\<close> is the value of a header named \<open>get\<close>: when that is a non-empty
  string the call of a string throws a TypeError, outside the \<open>try\<close> of line 59.
\<close>

definition signature_header :: "(string \<rightharpoonup> string) \<Rightarrow> string + string option" where
  "signature_header h =
     (if truthy (h ''get'') then Inl ''req.headers.get is not a function''
      else Inr (h ''stripe-signature''))"

text \<open>
  \<open>stripe.webhooks.constructEvent\<close> belongs to the payment provider's library: it is a
  parameter, from the body, the signature header and the signing secret to the message of
  the error it throws or the event it returns.
\<close>

type_synonym construct_event = "req_body \<Rightarrow> string option \<Rightarrow> string option \<Rightarrow> string + event"

text \<open>The \<open>try\<close> of lines 59 to 62.\<close>

definition verify :: "config \<Rightarrow> construct_event \<Rightarrow> req_body \<Rightarrow> string option \<Rightarrow> string + event" where
  "verify cfg constructEvent b sig =
     (if stripe cfg then constructEvent b sig (STRIPE_WEBHOOK_SECRET cfg)
      else Inl ''Stripe not configured'')"

text \<open>\<open>session.metadata?.userId\<close>\<close>

definition session_user :: "session \<Rightarrow> string option" where
  "session_user s = (case session_metadata s of None \<Rightarrow> None | Some m \<Rightarrow> userId m)"

text \<open>
  The parameters of the \<open>INSERT\<close> of line 71:
  \<open>[userId || null, 'stripe', session.id, session.amount_total || 499,
  session.currency || 'eur']\<close>.
\<close>

definition purchase_row :: "session \<Rightarrow> purchase" where
  "purchase_row s =
     \<lparr>user_id = (if truthy (session_user s) then session_user s else None),
      provider = ''stripe'',
      provider_id = session_id s,
      amount = (case amount_total s of None \<Rightarrow> 499 | Some a \<Rightarrow> if a = 0 then 499 else a),
      currency = (if truthy (session_currency s) then the (session_currency s) else ''eur'')\<rparr>"

text \<open>The statements the \<open>try\<close> of lines 69 to 72 sends, in order.\<close>

definition statements :: "session \<Rightarrow> stmt list" where
  "statements s =
     (if truthy (session_user s) then [UpdatePremium (the (session_user s))] else [])
     @ [InsertPurchase (purchase_row s)]"

text \<open>
  Each statement is awaited on its own, with no transaction around them; the first one that
  rejects ends the \<open>try\<close> and the \<open>catch\<close> only logs.
\<close>

fun run_try :: "faults \<Rightarrow> stmt list \<Rightarrow> db \<Rightarrow> db" where
  "run_try f [] d = d"
| "run_try f (s # ss) d = (case exec f s d of None \<Rightarrow> d | Some d' \<Rightarrow> run_try f ss d')"

definition webhook :: "config \<Rightarrow> construct_event \<Rightarrow> faults \<Rightarrow> request \<Rightarrow> db \<Rightarrow> reply \<times> db" where
  "webhook cfg constructEvent f req d =
     (case signature_header (headers req) of
        Inl e \<Rightarrow> (Uncaught e, d)
      | Inr sig \<Rightarrow>
          (case verify cfg constructEvent (body req) sig of
             Inl msg \<Rightarrow> (Reply 400 (Plain (''Webhook Error: '' @ msg)), d)
           | Inr ev \<Rightarrow>
               (Reply 200 Received,
                if event_type ev = ''checkout.session.completed''
                then run_try f (statements (data_object ev)) d else d)))"

subsection \<open>The middleware in front of the handler\<close>

text \<open>
  Line 15 installs \<open>bodyParser.json()\<close> for every route; line 56 puts
  \<open>bodyParser.raw({ type: 'application/json' })\<close> in front of the webhook handler, so a
  delivery passes the JSON parser first. The parsers are a library: the tests they make are
  parameters. Both parsers ask the same question of a request (it has a body and its content
  type is \<open>application/json\<close>: \<open>should_parse\<close>); each then reads the bytes, which can
  fail (\<open>json_read\<close> includes the check of the charset and the parse). A parser skips a request whose body is flagged
  as parsed (\<open>req._body\<close>), and sets the flag when it has read one. A failure goes to the
  framework's error handler and the route's handler does not run.
\<close>

record http_request =
  http_headers :: "string \<rightharpoonup> string"
  http_payload :: string

record body_parser =
  should_parse :: "http_request \<Rightarrow> bool"
  json_read :: "http_request \<Rightarrow> bool"
  raw_read :: "http_request \<Rightarrow> bool"

record parse_state =
  parsed_body :: req_body
  body_flag :: bool

definition jsonParser :: "body_parser \<Rightarrow> http_request \<Rightarrow> parse_state \<Rightarrow> parse_state option" where
  "jsonParser lib r st =
     (if body_flag st then Some st
      else if should_parse lib r then
        (if json_read lib r then Some \<lparr>parsed_body = Parsed (http_payload r), body_flag = True\<rparr>
         else None)
      else Some st)"

definition rawParser :: "body_parser \<Rightarrow> http_request \<Rightarrow> parse_state \<Rightarrow> parse_state option" where
  "rawParser lib r st =
     (if body_flag st then Some st
      else if should_parse lib r then
        (if raw_read lib r then Some \<lparr>parsed_body = Raw (http_payload r), body_flag = True\<rparr>
         else None)
      else Some st)"

datatype served = ParserError | Handled reply

text \<open>\<open>POST /webhook\<close> as the application serves it: line 15, then the two of line 56.\<close>

definition webhook_route ::
  "body_parser \<Rightarrow> config \<Rightarrow> construct_event \<Rightarrow> faults \<Rightarrow> http_request \<Rightarrow> db \<Rightarrow> served \<times> db" where
  "webhook_route lib cfg constructEvent f r d =
     (case jsonParser lib r \<lparr>parsed_body = NoPayload, body_flag = False\<rparr> of
        None \<Rightarrow> (ParserError, d)
      | Some st \<Rightarrow>
          (case rawParser lib r st of
             None \<Rightarrow> (ParserError, d)
           | Some st' \<Rightarrow>
               (Handled (fst (webhook cfg constructEvent f
                  \<lparr>headers = http_headers r, body = parsed_body st'\<rparr> d)),
                snd (webhook cfg constructEvent f
                  \<lparr>headers = http_headers r, body = parsed_body st'\<rparr> d))))"

subsection \<open>Two deliveries at once\<close>

text \<open>
  Two deliveries in flight at once: each handler has verified its request and is left with
  the statements it still has to send. The storage engine executes one statement at a time;
  the schedule says whose statement comes next (\<open>False\<close> the first delivery, \<open>True\<close> the
  second), and when it is exhausted the first delivery finishes, then the second. A
  delivery whose statement is rejected sends no further statement.
\<close>

fun interleave :: "bool list \<Rightarrow> faults \<Rightarrow> stmt list \<Rightarrow> faults \<Rightarrow> stmt list \<Rightarrow> db \<Rightarrow> db" where
  "interleave [] f1 a f2 b d = run_try f2 b (run_try f1 a d)"
| "interleave (False # cs) f1 [] f2 b d = interleave cs f1 [] f2 b d"
| "interleave (False # cs) f1 (s # a) f2 b d =
     (case exec f1 s d of
        None \<Rightarrow> interleave cs f1 [] f2 b d
      | Some d' \<Rightarrow> interleave cs f1 a f2 b d')"
| "interleave (True # cs) f1 a f2 [] d = interleave cs f1 a f2 [] d"
| "interleave (True # cs) f1 a f2 (s # b) d =
     (case exec f2 s d of
        None \<Rightarrow> interleave cs f1 a f2 [] d
      | Some d' \<Rightarrow> interleave cs f1 a f2 b d')"

section \<open>GET /api/certificate/:name/:level\<close>

text \<open>
  A JavaScript number: not a number, an infinity, or a finite value (every finite double is
  a rational). The sign of zero plays no part: line 79 takes the maximum with 1.
\<close>

datatype jsnum = NaN | NegInfinity | Num rat | Infinity

text \<open>\<open>Math.min\<close> and \<open>Math.max\<close> answer \<open>NaN\<close> when an argument is \<open>NaN\<close>.\<close>

fun js_min :: "jsnum \<Rightarrow> jsnum \<Rightarrow> jsnum" where
  "js_min NaN _ = NaN"
| "js_min _ NaN = NaN"
| "js_min NegInfinity _ = NegInfinity"
| "js_min _ NegInfinity = NegInfinity"
| "js_min Infinity b = b"
| "js_min a Infinity = a"
| "js_min (Num a) (Num b) = Num (min a b)"

fun js_max :: "jsnum \<Rightarrow> jsnum \<Rightarrow> jsnum" where
  "js_max NaN _ = NaN"
| "js_max _ NaN = NaN"
| "js_max Infinity _ = Infinity"
| "js_max _ Infinity = Infinity"
| "js_max NegInfinity b = b"
| "js_max a NegInfinity = a"
| "js_max (Num a) (Num b) = Num (max a b)"

text \<open>
  Line 79: \<open>Math.max(1, Math.min(20, Number(level || 1)))\<close>. \<open>Number\<close> is the runtime's
  conversion of a string, a parameter; \<open>level || 1\<close> is the number 1 for an empty string.
\<close>

definition titleIndex :: "(string \<Rightarrow> jsnum) \<Rightarrow> string \<Rightarrow> jsnum" where
  "titleIndex Number lvl =
     js_max (Num 1) (js_min (Num 20) (if lvl = [] then Num 1 else Number lvl))"

text \<open>
  A number inside a template string. An integer from 0 up to (and not including) \<open>10^21\<close>
  is written with its decimal digits; the text of any other finite number is the runtime's
  (\<open>number_text\<close>, a parameter).
\<close>

fun show_nat :: "nat \<Rightarrow> string" where
  "show_nat n =
     (if n < 10 then [''0123456789'' ! n]
      else show_nat (n div 10) @ [''0123456789'' ! (n mod 10)])"

declare show_nat.simps [simp del]

definition show_num :: "(rat \<Rightarrow> string) \<Rightarrow> jsnum \<Rightarrow> string" where
  "show_num number_text n =
     (case n of
        NaN \<Rightarrow> ''NaN''
      | NegInfinity \<Rightarrow> ''-Infinity''
      | Infinity \<Rightarrow> ''Infinity''
      | Num x \<Rightarrow>
          (if x = of_int \<lfloor>x\<rfloor> \<and> 0 \<le> x \<and> x < 10 ^ 21 then show_nat (nat \<lfloor>x\<rfloor>)
           else number_text x))"

text \<open>
  The value of line 82, \<open>f'attachment; filename="nfj_certificate_level_{titleIndex}.pdf"'\<close>,
  read as a template string.
\<close>

definition disposition :: "(rat \<Rightarrow> string) \<Rightarrow> jsnum \<Rightarrow> string" where
  \<open>disposition number_text n =
     ''attachment; filename="nfj_certificate_level_'' @ show_num number_text n @ ''.pdf"''\<close>

definition TITLES :: "string list" where
  "TITLES =
     [''Ruderer'', ''Bootsmann'', ''W'' @ [CHR 0xE4] @ ''chter'', ''Seefahrer'',
      ''Schildtr'' @ [CHR 0xE4] @ ''ger'', ''Seemann'', ''Wikingerjung'', ''Skalde'',
      ''Krieger'', ''Navigator'', ''F'' @ [CHR 0xE4] @ ''hrmann'', ''Stammesmitglied'',
      ''Hafenmeister'', ''Herscher'', ''Schiffbauer'', ''H'' @ [CHR 0xE4] @ ''uptling'',
      ''Jarl'', ''Erzj'' @ [CHR 0xE4] @ ''ger'', ''Schildoberst'', ''K'' @ [CHR 0xF6] @ ''nig'']"

text \<open>
  \<open>TITLES[titleIndex-1]\<close> of line 87; \<open>None\<close> is \<open>undefined\<close>, the value of an index
  that is no integer from 0 to 19.
\<close>

definition title_at :: "jsnum \<Rightarrow> string option" where
  "title_at n =
     (case n of
        Num x \<Rightarrow>
          (if x = of_int \<lfloor>x\<rfloor> \<and> 1 \<le> x \<and> x \<le> of_nat (length TITLES)
           then Some (TITLES ! nat (\<lfloor>x\<rfloor> - 1)) else None)
      | _ \<Rightarrow> None)"

text \<open>
  The handler sets the two headers of lines 81 and 82 on the response object and then, on
  line 83, calls \<open>PDFDocument({...})\<close> without \<open>new\<close>. \<open>PDFDocument\<close> is the document
  renderer's constructor: called as a plain function it builds no document and a TypeError
  is thrown. The handler is \<open>async\<close> and has no \<open>try\<close>: the exception leaves it, the
  lines 84 to 92 (which would write the level and \<open>title_at\<close> of it into the document and
  end the response) do not run, and the handler sends nothing. The result is what the
  handler has put on the response object, and how it ended.
\<close>

record certificate_result =
  content_type :: string
  content_disposition :: string
  ended :: reply

definition certificate :: "(string \<Rightarrow> jsnum) \<Rightarrow> (rat \<Rightarrow> string) \<Rightarrow> string \<Rightarrow> certificate_result" where
  "certificate Number number_text lvl =
     \<lparr>content_type = ''application/pdf'',
      content_disposition = disposition number_text (titleIndex Number lvl),
      ended = Uncaught ''PDFDocument called without new''\<rparr>"

section \<open>POST /api/register and GET /api/me/:id\<close>

text \<open>
  Modelled from the spec: the schema of the users table is missing from the source; the spec
  gives \<open>email\<close> as unique, which is the conflict target of line 98.
  \<open>INSERT INTO users (email) VALUES ($1) ON CONFLICT (email) DO UPDATE SET email =
  EXCLUDED.email RETURNING ...\<close>: a row with that email is rewritten with the same email
  and returned; otherwise a row is appended and returned. The id and the column defaults of
  a new row are the schema's as well: \<open>fresh\<close> is the row the engine would build, and
  the statement stores it with the given email. \<open>fails\<close> is the engine failing the
  statement.
\<close>

definition register :: "bool \<Rightarrow> user \<Rightarrow> string option \<Rightarrow> db \<Rightarrow> reply \<times> db" where
  "register fails fresh em d =
     (if truthy em then
        (if fails then (Reply 500 (ErrorJson ''db error''), d)
         else
           (case find (\<lambda>u. email u = the em) (users d) of
              Some u \<Rightarrow>
                (Reply 200 (UserRow (Some (u\<lparr>email := the em\<rparr>))),
                 d\<lparr>users := map (\<lambda>v. if email v = the em then v\<lparr>email := the em\<rparr> else v) (users d)\<rparr>)
            | None \<Rightarrow>
                (Reply 200 (UserRow (Some (fresh\<lparr>email := the em\<rparr>))),
                 d\<lparr>users := users d @ [fresh\<lparr>email := the em\<rparr>]\<rparr>)))
      else (Reply 400 (ErrorJson ''email required''), d))"

text \<open>\<open>SELECT ... FROM users WHERE id=$1\<close>, then \<open>r.rows[0]||null\<close>.\<close>

definition me :: "bool \<Rightarrow> string \<Rightarrow> db \<Rightarrow> reply" where
  "me fails i d =
     (if fails then Reply 500 (ErrorJson ''db error'')
      else Reply 200 (UserRow (find (\<lambda>u. uid u = i) (users d))))"

text \<open>
  The JSON object of a reply, with its keys. A row is sent as the storage driver returns it,
  keyed by the column names of the \<open>RETURNING\<close> and \<open>SELECT\<close> lists of lines 98 and
  103; \<open>Opaque\<close> is the id, of whatever type the schema gives it. \<open>None\<close>: the reply has
  no JSON object (a text, \<open>null\<close>, or no response at all). A property whose value is
  \<open>undefined\<close> is left out of the JSON text.
\<close>

datatype field = Opaque string | Text string | Numeric int | Flag bool

definition user_json :: "user \<Rightarrow> (string \<times> field) list" where
  "user_json u =
     [(''id'', Opaque (uid u)), (''email'', Text (email u)), (''points'', Numeric (points u)),
      (''level'', Numeric (level u)), (''is_premium'', Flag (is_premium u))]"

fun reply_json :: "reply \<Rightarrow> (string \<times> field) list option" where
  "reply_json (Reply n (ErrorJson m)) = Some [(''error'', Text m)]"
| "reply_json (Reply n (Translation t p)) =
     Some ((case t of None \<Rightarrow> [] | Some s \<Rightarrow> [(''translatedText'', Text s)]) @
           [(''provider'', Text p)])"
| "reply_json (Reply n (Plain m)) = None"
| "reply_json (Reply n Received) = Some [(''received'', Flag True)]"
| "reply_json (Reply n (UserRow None)) = None"
| "reply_json (Reply n (UserRow (Some u))) = Some (user_json u)"
| "reply_json (Uncaught e) = None"

section \<open>Concrete inputs used by the examples\<close>

text \<open>
  \<open>toUpperCase\<close> on strings of ASCII characters, the only ones the examples pass to it.
\<close>

definition upper_ascii :: "string \<Rightarrow> string" where
  "upper_ascii s =
     map (\<lambda>c. if 97 \<le> (of_char c :: nat) \<and> (of_char c :: nat) \<le> 122
              then char_of ((of_char c :: nat) - 32) else c) s"


definition cfg_stripe :: config where
  "cfg_stripe =
     \<lparr>STRIPE_SECRET_KEY = Some ''sk_test'', STRIPE_WEBHOOK_SECRET = Some ''whsec'',
      DEEPL_API_KEY = None, LIBRETRANSLATE_URL = None\<rparr>"

definition cfg_both :: config where
  "cfg_both =
     \<lparr>STRIPE_SECRET_KEY = None, STRIPE_WEBHOOK_SECRET = None,
      DEEPL_API_KEY = Some ''key'', LIBRETRANSLATE_URL = Some ''http://lt''\<rparr>"

definition cfg_deepl :: config where
  "cfg_deepl =
     \<lparr>STRIPE_SECRET_KEY = None, STRIPE_WEBHOOK_SECRET = None,
      DEEPL_API_KEY = Some ''key'', LIBRETRANSLATE_URL = None\<rparr>"

definition cfg_none :: config where
  "cfg_none =
     \<lparr>STRIPE_SECRET_KEY = None, STRIPE_WEBHOOK_SECRET = None,
      DEEPL_API_KEY = None, LIBRETRANSLATE_URL = None\<rparr>"

definition hello :: translate_body where
  "hello = \<lparr>q = Some ''Hello'', source = Some ''en'', target = Some ''de''\<rparr>"

text \<open>A primary that throws and one that answers with an empty list; a secondary that translates.\<close>

definition up_throws :: upstream where
  "up_throws =
     \<lparr>deepl_post = (\<lambda>k t s g. Rejected),
      libre_post = (\<lambda>u t s g. Resolved (Some (LibreData (Some ''Hallo''))))\<rparr>"

definition up_empty :: upstream where
  "up_empty =
     \<lparr>deepl_post = (\<lambda>k t s g. Resolved (Some (DeeplData (Some [])))),
      libre_post = (\<lambda>u t s g. Resolved (Some (LibreData (Some ''Hallo''))))\<rparr>"

text \<open>A completed checkout of user \<open>u1\<close>, and a stand-in verifier that accepts the signature \<open>good\<close>.\<close>

definition sess1 :: session where
  "sess1 =
     \<lparr>session_id = ''cs_1'', session_metadata = Some (Metadata (Some ''u1'')),
      amount_total = None, session_currency = None\<rparr>"

definition ev1 :: event where
  "ev1 = \<lparr>event_type = ''checkout.session.completed'', data_object = sess1\<rparr>"

definition toy_verifier :: construct_event where
  "toy_verifier b sig secret =
     (if sig = Some ''good'' then Inr ev1
      else Inl ''No signatures found matching the expected signature for payload'')"

definition req_good :: request where
  "req_good = \<lparr>headers = [''stripe-signature'' \<mapsto> ''good''], body = Raw ''{}''\<rparr>"

definition req_get :: request where
  "req_get =
     \<lparr>headers = [''get'' \<mapsto> ''x'', ''stripe-signature'' \<mapsto> ''bad''], body = Raw ''{}''\<rparr>"

definition user1 :: user where
  "user1 = \<lparr>uid = ''u1'', email = ''a@b.c'', points = 0, level = 1, is_premium = False\<rparr>"

definition db1 :: db where
  "db1 = \<lparr>users = [user1], purchases = []\<rparr>"

text \<open>
  A verifier that, like the provider's, takes the signed bytes only: it returns the event
  for a raw body with the signature \<open>good\<close> and throws for any other body or signature.
  A delivery of the provider: JSON content with that signature. A parser library that
  parses JSON content and reads it without failure.
\<close>

definition raw_verifier :: construct_event where
  "raw_verifier b sig secret =
     (case b of
        Raw t \<Rightarrow>
          (if sig = Some ''good'' then Inr ev1
           else Inl ''No signatures found matching the expected signature for payload'')
      | _ \<Rightarrow> Inl ''Webhook payload must be provided as a string or a Buffer'')"

definition delivery1 :: http_request where
  \<open>delivery1 =
     \<lparr>http_headers =
        [''content-type'' \<mapsto> ''application/json'', ''stripe-signature'' \<mapsto> ''good''],
      http_payload = ''{"type":"checkout.session.completed"}''\<rparr>\<close>

definition parsers1 :: body_parser where
  "parsers1 =
     \<lparr>should_parse = (\<lambda>r. http_headers r ''content-type'' = Some ''application/json''),
      json_read = (\<lambda>r. True), raw_read = (\<lambda>r. True)\<rparr>"

text \<open>A primary whose first entry has no text.\<close>

definition up_textless :: upstream where
  "up_textless =
     \<lparr>deepl_post = (\<lambda>k t s g. Resolved (Some (DeeplData (Some [Some (Item None)])))),
      libre_post = (\<lambda>u t s g. Resolved (Some (LibreData (Some ''Hallo''))))\<rparr>"

text \<open>Adapters that both answer without a translation.\<close>

definition up_all_empty :: upstream where
  "up_all_empty =
     \<lparr>deepl_post = (\<lambda>k t s g. Resolved (Some (DeeplData (Some [])))),
      libre_post = (\<lambda>u t s g. Resolved (Some (LibreData (Some ''''))))\<rparr>"

text \<open>A completed checkout with an empty \<open>userId\<close>, no amount and no currency.\<close>

definition sess_anon :: session where
  "sess_anon =
     \<lparr>session_id = ''cs_2'', session_metadata = Some (Metadata (Some '''')),
      amount_total = None, session_currency = None\<rparr>"

definition verifier_anon :: construct_event where
  "verifier_anon b sig secret =
     Inr \<lparr>event_type = ''checkout.session.completed'', data_object = sess_anon\<rparr>"

section \<open>The ledger under the webhook's statements\<close>

text \<open>
  Executing a statement keeps the ledger's keys distinct and never removes a key; so does
  a whole delivery, and so do two deliveries under any schedule.
\<close>

lemma exec_keeps_distinct:
  "distinct (map ledger_key (purchases d)) \<Longrightarrow> exec f s d = Some d' \<Longrightarrow>
   distinct (map ledger_key (purchases d'))"
  by (cases s) (auto split: if_splits)

lemma exec_keeps_key:
  "k \<in> set (map ledger_key (purchases d)) \<Longrightarrow> exec f s d = Some d' \<Longrightarrow>
   k \<in> set (map ledger_key (purchases d'))"
  by (cases s) (auto split: if_splits)

lemma run_try_keeps_distinct:
  "distinct (map ledger_key (purchases d)) \<Longrightarrow>
   distinct (map ledger_key (purchases (run_try f ss d)))"
proof (induction ss arbitrary: d)
  case Nil
  then show ?case by simp
next
  case (Cons s ss)
  show ?case
  proof (cases "exec f s d")
    case None
    with Cons.prems show ?thesis by simp
  next
    case (Some d')
    with Cons.prems have "distinct (map ledger_key (purchases d'))"
      by (rule_tac exec_keeps_distinct)
    with Some Cons.IH show ?thesis by simp
  qed
qed

lemma interleave_keeps_distinct:
  "distinct (map ledger_key (purchases d)) \<Longrightarrow>
   distinct (map ledger_key (purchases (interleave cs f1 a f2 b d)))"
proof (induction cs f1 a f2 b d rule: interleave.induct)
  case (1 f1 a f2 b d)
  then show ?case by (simp add: run_try_keeps_distinct)
next
  case (2 cs f1 f2 b d)
  then show ?case by simp
next
  case (3 cs f1 s a f2 b d)
  then show ?case
    by (cases "exec f1 s d") (auto dest: exec_keeps_distinct)
next
  case (4 cs f1 a f2 d)
  then show ?case by simp
next
  case (5 cs f1 a f2 s b d)
  then show ?case
    by (cases "exec f2 s d") (auto dest: exec_keeps_distinct)
qed

text \<open>
  Without a failure of the engine's own, a statement of a delivery of row \<open>r\<close> is rejected
  only when the ledger already holds the key of \<open>r\<close>.
\<close>

lemma exec_rejects_only_duplicate:
  assumes "s \<in> range UpdatePremium \<union> {InsertPurchase r}"
    and "\<not> update_fails f" and "\<not> insert_fails f" and "exec f s d = None"
  shows "ledger_key r \<in> set (map ledger_key (purchases d))"
  using assms by (cases s) (auto split: if_splits)

lemma exec_insert_adds_key:
  "exec f (InsertPurchase r) d = Some d' \<Longrightarrow> ledger_key r \<in> set (map ledger_key (purchases d'))"
  by (auto split: if_splits)

lemma exec_step_key:
  assumes "exec f s d = Some d'"
    and "ledger_key r \<in> set (map ledger_key (purchases d)) \<or>
         (P \<and> InsertPurchase r \<in> set (s # a))"
  shows "ledger_key r \<in> set (map ledger_key (purchases d')) \<or>
         (P \<and> InsertPurchase r \<in> set a)"
proof (cases "ledger_key r \<in> set (map ledger_key (purchases d))")
  case True
  then show ?thesis using exec_keeps_key [OF _ assms(1)] by blast
next
  case False
  with assms(2) have P: P and "InsertPurchase r \<in> set (s # a)" by blast+
  then consider "s = InsertPurchase r" | "InsertPurchase r \<in> set a" by auto
  then show ?thesis
  proof cases
    case 1
    with assms(1) show ?thesis using exec_insert_adds_key by blast
  next
    case 2
    with P show ?thesis by blast
  qed
qed

lemma run_try_key:
  assumes "set a \<subseteq> range UpdatePremium \<union> {InsertPurchase r}"
    and "ledger_key r \<in> set (map ledger_key (purchases d)) \<or>
         (\<not> update_fails f \<and> \<not> insert_fails f \<and> InsertPurchase r \<in> set a)"
  shows "ledger_key r \<in> set (map ledger_key (purchases (run_try f a d)))"
  using assms
proof (induction a arbitrary: d)
  case Nil
  then show ?case by simp
next
  case (Cons s a)
  have s: "s \<in> range UpdatePremium \<union> {InsertPurchase r}" and
       a: "set a \<subseteq> range UpdatePremium \<union> {InsertPurchase r}"
    using Cons.prems(1) by auto
  show ?case
  proof (cases "exec f s d")
    case None
    from Cons.prems(2) have "ledger_key r \<in> set (map ledger_key (purchases d))"
      using exec_rejects_only_duplicate [OF s _ _ None] by blast
    with None show ?thesis by simp
  next
    case (Some d')
    have "ledger_key r \<in> set (map ledger_key (purchases d')) \<or>
         (\<not> update_fails f \<and> \<not> insert_fails f \<and> InsertPurchase r \<in> set a)"
      using exec_step_key [OF Some, of r "\<not> update_fails f \<and> \<not> insert_fails f" a] Cons.prems(2)
      by blast
    with Cons.IH [OF a] Some show ?thesis by simp
  qed
qed

lemma interleave_key:
  assumes "set a \<subseteq> range UpdatePremium \<union> {InsertPurchase r}"
    and "set b \<subseteq> range UpdatePremium \<union> {InsertPurchase r}"
    and "ledger_key r \<in> set (map ledger_key (purchases d)) \<or>
         (\<not> update_fails f1 \<and> \<not> insert_fails f1 \<and> InsertPurchase r \<in> set a) \<or>
         (\<not> update_fails f2 \<and> \<not> insert_fails f2 \<and> InsertPurchase r \<in> set b)"
  shows "ledger_key r \<in> set (map ledger_key (purchases (interleave cs f1 a f2 b d)))"
  using assms
proof (induction cs f1 a f2 b d rule: interleave.induct)
  case (1 f1 a f2 b d)
  have "ledger_key r \<in> set (map ledger_key (purchases (run_try f1 a d))) \<or>
        (\<not> update_fails f2 \<and> \<not> insert_fails f2 \<and> InsertPurchase r \<in> set b)"
    using 1 run_try_key [of a r d f1] by blast
  then show ?case
    using run_try_key [OF "1.prems"(2), of "run_try f1 a d" f2] by simp
next
  case (2 cs f1 f2 b d)
  then show ?case by simp
next
  case (3 cs f1 s a f2 b d)
  have s: "s \<in> range UpdatePremium \<union> {InsertPurchase r}" and
       a: "set a \<subseteq> range UpdatePremium \<union> {InsertPurchase r}"
    using "3.prems"(1) by auto
  show ?case
  proof (cases "exec f1 s d")
    case None
    have "ledger_key r \<in> set (map ledger_key (purchases d)) \<or>
         (\<not> update_fails f2 \<and> \<not> insert_fails f2 \<and> InsertPurchase r \<in> set b)"
      using "3.prems"(3) exec_rejects_only_duplicate [OF s _ _ None] by blast
    then show ?thesis
      using "3.IH"(1) [OF None _ "3.prems"(2)] None by simp
  next
    case (Some d')
    have "ledger_key r \<in> set (map ledger_key (purchases d')) \<or>
         (\<not> update_fails f1 \<and> \<not> insert_fails f1 \<and> InsertPurchase r \<in> set a) \<or>
         (\<not> update_fails f2 \<and> \<not> insert_fails f2 \<and> InsertPurchase r \<in> set b)"
      using exec_step_key [OF Some, of r "\<not> update_fails f1 \<and> \<not> insert_fails f1" a]
        exec_keeps_key [OF _ Some, of "ledger_key r"] "3.prems"(3)
      by blast
    then show ?thesis
      using "3.IH"(2) [OF Some a "3.prems"(2)] Some by simp
  qed
next
  case (4 cs f1 a f2 d)
  then show ?case by simp
next
  case (5 cs f1 a f2 s b d)
  have s: "s \<in> range UpdatePremium \<union> {InsertPurchase r}" and
       b: "set b \<subseteq> range UpdatePremium \<union> {InsertPurchase r}"
    using "5.prems"(2) by auto
  show ?case
  proof (cases "exec f2 s d")
    case None
    have "ledger_key r \<in> set (map ledger_key (purchases d)) \<or>
         (\<not> update_fails f1 \<and> \<not> insert_fails f1 \<and> InsertPurchase r \<in> set a)"
      using "5.prems"(3) exec_rejects_only_duplicate [OF s _ _ None] by blast
    then show ?thesis
      using "5.IH"(1) [OF None "5.prems"(1)] None by simp
  next
    case (Some d')
    have "ledger_key r \<in> set (map ledger_key (purchases d')) \<or>
         (\<not> update_fails f1 \<and> \<not> insert_fails f1 \<and> InsertPurchase r \<in> set a) \<or>
         (\<not> update_fails f2 \<and> \<not> insert_fails f2 \<and> InsertPurchase r \<in> set b)"
      using exec_step_key [OF Some, of r "\<not> update_fails f2 \<and> \<not> insert_fails f2" b]
        exec_keeps_key [OF _ Some, of "ledger_key r"] "5.prems"(3)
      by blast
    then show ?thesis
      using "5.IH"(2) [OF Some "5.prems"(1) b] Some by simp
  qed
qed

lemma one_row_of_key:
  "distinct (map g xs) \<Longrightarrow> k \<in> set (map g xs) \<Longrightarrow> length (filter (\<lambda>x. g x = k) xs) = 1"
proof (induction xs)
  case Nil
  then show ?case by simp
next
  case (Cons x xs)
  show ?case
  proof (cases "g x = k")
    case True
    from Cons.prems(1) have "g x \<notin> g ` set xs" by simp
    with True have "\<forall>y\<in>set xs. g y \<noteq> k" by blast
    then have "filter (\<lambda>x. g x = k) xs = []" by (simp add: filter_empty_conv)
    with True show ?thesis by simp
  next
    case False
    with Cons show ?thesis by auto
  qed
qed

lemma statements_shape:
  "set (statements s) \<subseteq> range UpdatePremium \<union> {InsertPurchase (purchase_row s)}"
  "InsertPurchase (purchase_row s) \<in> set (statements s)"
  by (auto simp: statements_def)

lemma key_of_purchase_row: "ledger_key (purchase_row s) = (''stripe'', session_id s)"
  by (simp add: ledger_key_def purchase_row_def)

section \<open>What the webhook handler does to the store\<close>

lemma run_try_statements:
  "run_try f (statements s) d =
     (if truthy (session_user s) then
        (if update_fails f then d
         else if insert_fails f \<or> ledger_key (purchase_row s) \<in> set (map ledger_key (purchases d))
         then d\<lparr>users := set_premium (the (session_user s)) (users d)\<rparr>
         else \<lparr>users = set_premium (the (session_user s)) (users d),
               purchases = purchases d @ [purchase_row s]\<rparr>)
      else
        (if insert_fails f \<or> ledger_key (purchase_row s) \<in> set (map ledger_key (purchases d))
         then d else d\<lparr>purchases := purchases d @ [purchase_row s]\<rparr>))"
  by (simp add: statements_def)

lemma webhook_verified:
  assumes "signature_header (headers req) = Inr sig"
    and "verify cfg constructEvent (body req) sig = Inr ev"
  shows "webhook cfg constructEvent f req d =
     (Reply 200 Received,
      if event_type ev = ''checkout.session.completed''
      then run_try f (statements (data_object ev)) d else d)"
  using assms by (simp add: webhook_def)

lemma webhook_rejects_unverified:
  assumes "signature_header (headers req) = Inr sig"
    and "verify cfg constructEvent (body req) sig = Inl msg"
  shows "webhook cfg constructEvent f req d = (Reply 400 (Plain (''Webhook Error: '' @ msg)), d)"
  using assms by (simp add: webhook_def)

lemma webhook_store_needs_verification:
  assumes "snd (webhook cfg constructEvent f req d) \<noteq> d"
  shows "\<exists>sig ev. signature_header (headers req) = Inr sig \<and>
           verify cfg constructEvent (body req) sig = Inr ev \<and>
           event_type ev = ''checkout.session.completed''"
  using assms by (auto simp: webhook_def split: sum.splits if_splits)

lemma webhook_twice_is_schedule:
  assumes "signature_header (headers req) = Inr sig"
    and "verify cfg constructEvent (body req) sig = Inr ev"
    and "event_type ev = ''checkout.session.completed''"
  shows "snd (webhook cfg constructEvent f2 req (snd (webhook cfg constructEvent f1 req d))) =
         interleave [] f1 (statements (data_object ev)) f2 (statements (data_object ev)) d"
  using assms by (simp add: webhook_verified)

section \<open>What the middleware hands to the webhook handler\<close>

text \<open>
  The JSON parser of line 15 comes first: a request that the raw parser of line 56 would
  read has been read, or refused, by the JSON parser before. The handler never finds the
  bytes in \<open>req.body\<close>.
\<close>

lemma parsers_give_no_raw_body:
  assumes "jsonParser lib r \<lparr>parsed_body = NoPayload, body_flag = False\<rparr> = Some st"
    and "rawParser lib r st = Some st'"
  shows "parsed_body st' = NoPayload \<or> parsed_body st' = Parsed (http_payload r)"
  using assms by (auto simp: jsonParser_def rawParser_def split: if_splits)

text \<open>
  So with a verifier that returns an event for the signed bytes only, no delivery, however
  it is signed, gets past line 61, and the store stays as it is.
\<close>

lemma webhook_unverified_store:
  assumes "\<And>sig. \<exists>msg. verify cfg constructEvent (body req) sig = Inl msg"
  shows "snd (webhook cfg constructEvent f req d) = d"
proof (cases "signature_header (headers req)")
  case (Inl e)
  then show ?thesis by (simp add: webhook_def)
next
  case (Inr sig)
  from assms obtain msg where "verify cfg constructEvent (body req) sig = Inl msg" by blast
  with Inr show ?thesis by (simp add: webhook_def)
qed

lemma route_never_changes_store:
  assumes parsed: "\<And>t sig secret. \<exists>msg. constructEvent (Parsed t) sig secret = Inl msg"
    and none: "\<And>sig secret. \<exists>msg. constructEvent NoPayload sig secret = Inl msg"
  shows "snd (webhook_route lib cfg constructEvent f r d) = d"
proof (cases "jsonParser lib r \<lparr>parsed_body = NoPayload, body_flag = False\<rparr>")
  case None
  then show ?thesis by (simp add: webhook_route_def)
next
  case (Some st)
  show ?thesis
  proof (cases "rawParser lib r st")
    case None
    with Some show ?thesis by (simp add: webhook_route_def)
  next
    case (Some st')
    have body: "parsed_body st' = NoPayload \<or> parsed_body st' = Parsed (http_payload r)"
      using \<open>jsonParser lib r \<lparr>parsed_body = NoPayload, body_flag = False\<rparr> = Some st\<close> Some
      by (rule parsers_give_no_raw_body)
    have "\<And>sig. \<exists>msg. verify cfg constructEvent (parsed_body st') sig = Inl msg"
      using body parsed none by (auto simp: verify_def)
    then have "snd (webhook cfg constructEvent f
        \<lparr>headers = http_headers r, body = parsed_body st'\<rparr> d) = d"
      using webhook_unverified_store
        [of cfg constructEvent "\<lparr>headers = http_headers r, body = parsed_body st'\<rparr>" f d]
      by simp
    with Some \<open>jsonParser lib r \<lparr>parsed_body = NoPayload, body_flag = False\<rparr> = Some st\<close>
    show ?thesis by (simp add: webhook_route_def)
  qed
qed

section \<open>Claims about POST /webhook\<close>

text \<open>
  C1. The claim: every request whose signature verification fails is answered with status
  400 and a message that embeds the reason, and the store is left as it was. The two
  lemmas above give this for every request whose signature header can be read
  (\<open>webhook_rejects_unverified\<close>) and show that the store changes only after a
  successful verification (\<open>webhook_store_needs_verification\<close>). The code misses one
  case: a request that carries a non-empty header named \<open>get\<close>. Its signature is as
  invalid as any, but line 57 throws before the \<open>try\<close> is entered and no 400 is sent.
\<close>

theorem webhook_get_header_uncaught:
  "verify cfg_stripe toy_verifier (body req_get) (headers req_get ''stripe-signature'') =
     Inl ''No signatures found matching the expected signature for payload'' \<and>
   webhook cfg_stripe toy_verifier no_faults req_get db1 =
     (Uncaught ''req.headers.get is not a function'', db1)"
  by (simp add: webhook_def signature_header_def verify_def toy_verifier_def req_get_def
      cfg_stripe_def stripe_def truthy_def)

text \<open>
  Once two deliveries of one \<open>checkout.session.completed\<close> event are verified, the
  statements they send leave the ledger with distinct keys under every schedule, and with
  exactly one row for \<open>(stripe, session id)\<close> when at least one delivery meets no failure
  of the engine's own: the second insert is rejected by the uniqueness constraint of the
  spec's schema. The empty schedule is the two handlers run one after the other.
\<close>

lemma verified_duplicate_single_row:
  assumes "signature_header (headers req) = Inr sig"
    and "verify cfg constructEvent (body req) sig = Inr ev"
    and "event_type ev = ''checkout.session.completed''"
    and "distinct (map ledger_key (purchases d))"
  shows "snd (webhook cfg constructEvent fb req (snd (webhook cfg constructEvent fa req d))) =
           interleave [] fa (statements (data_object ev)) fb (statements (data_object ev)) d \<and>
         distinct (map ledger_key
           (purchases (interleave cs fa (statements (data_object ev)) fb
              (statements (data_object ev)) d))) \<and>
         ((\<not> update_fails fa \<and> \<not> insert_fails fa) \<or> (\<not> update_fails fb \<and> \<not> insert_fails fb) \<longrightarrow>
          length (filter (\<lambda>p. ledger_key p = (''stripe'', session_id (data_object ev)))
            (purchases (interleave cs fa (statements (data_object ev)) fb
               (statements (data_object ev)) d))) = 1)"
proof (intro conjI impI)
  let ?s = "data_object ev"
  show "snd (webhook cfg constructEvent fb req (snd (webhook cfg constructEvent fa req d))) =
        interleave [] fa (statements ?s) fb (statements ?s) d"
    using assms(1-3) by (rule webhook_twice_is_schedule)
  show dist: "distinct (map ledger_key
           (purchases (interleave cs fa (statements ?s) fb (statements ?s) d)))"
    using assms(4) by (rule interleave_keeps_distinct)
  assume "(\<not> update_fails fa \<and> \<not> insert_fails fa) \<or> (\<not> update_fails fb \<and> \<not> insert_fails fb)"
  then have "ledger_key (purchase_row ?s) \<in> set (map ledger_key (purchases d)) \<or>
      (\<not> update_fails fa \<and> \<not> insert_fails fa \<and>
        InsertPurchase (purchase_row ?s) \<in> set (statements ?s)) \<or>
      (\<not> update_fails fb \<and> \<not> insert_fails fb \<and>
        InsertPurchase (purchase_row ?s) \<in> set (statements ?s))"
    using statements_shape(2) [of ?s] by blast
  then have "ledger_key (purchase_row ?s) \<in> set (map ledger_key
           (purchases (interleave cs fa (statements ?s) fb (statements ?s) d)))"
    by (rule interleave_key [OF statements_shape(1) statements_shape(1)])
  with dist show "length (filter (\<lambda>p. ledger_key p = (''stripe'', session_id ?s))
            (purchases (interleave cs fa (statements ?s) fb (statements ?s) d))) = 1"
    using one_row_of_key [of ledger_key _ "(''stripe'', session_id ?s)"]
    by (simp add: key_of_purchase_row)
qed

text \<open>
  C2. The claim: a validly signed \<open>checkout.session.completed\<close> event delivered twice
  leaves exactly one ledger row for its session id. The handler asks for the raw body
  (line 56) and the ledger would take the row once (\<open>verified_duplicate_single_row\<close>),
  but the JSON parser of line 15 has replaced the bytes by the parsed object before the
  handler runs (\<open>parsers_give_no_raw_body\<close>). The delivery below carries a signature that
  the verifier accepts for its bytes; each of its two deliveries is answered with status
  400, and the ledger holds no row.
\<close>

theorem valid_delivery_never_recorded:
  "verify cfg_stripe raw_verifier (Raw (http_payload delivery1))
     (http_headers delivery1 ''stripe-signature'') = Inr ev1 \<and>
   event_type ev1 = ''checkout.session.completed'' \<and>
   webhook_route parsers1 cfg_stripe raw_verifier no_faults delivery1 db1 =
     (Handled (Reply 400
        (Plain ''Webhook Error: Webhook payload must be provided as a string or a Buffer'')),
      db1) \<and>
   purchases (snd (webhook_route parsers1 cfg_stripe raw_verifier no_faults delivery1
     (snd (webhook_route parsers1 cfg_stripe raw_verifier no_faults delivery1 db1)))) = []"
  by (simp add: webhook_route_def jsonParser_def rawParser_def parsers1_def delivery1_def
      webhook_def signature_header_def verify_def raw_verifier_def cfg_stripe_def stripe_def
      truthy_def ev1_def db1_def)

text \<open>
  C3. Every verified event is acknowledged with \<open>{received: true}\<close>, whatever its type,
  whatever the store holds and whichever statements the storage engine fails.
\<close>

theorem verified_event_acknowledged:
  assumes "signature_header (headers req) = Inr sig"
    and "verify cfg constructEvent (body req) sig = Inr ev"
  shows "fst (webhook cfg constructEvent f req d) = Reply 200 Received"
  using assms by (simp add: webhook_def)

theorem verified_event_acknowledged_witness:
  "signature_header (headers req_good) = Inr (Some ''good'') \<and>
   verify cfg_stripe toy_verifier (body req_good) (Some ''good'') = Inr ev1 \<and>
   fst (webhook cfg_stripe toy_verifier \<lparr>update_fails = True, insert_fails = True\<rparr> req_good db1) =
     Reply 200 Received"
  using verified_event_acknowledged
    [of req_good "Some ''good''" cfg_stripe toy_verifier ev1
        "\<lparr>update_fails = True, insert_fails = True\<rparr>" db1]
  by (simp add: signature_header_def verify_def toy_verifier_def req_good_def cfg_stripe_def
      stripe_def truthy_def)

text \<open>
  C4, as the code has it. The premium update and the ledger insert are two statements, each
  committed on its own and sent in this order. When the update fails nothing changes; when
  the update succeeds and the insert is rejected (by the engine or by the uniqueness of the
  key) the premium flag stays set and no row is added; otherwise both effects occur.
\<close>

theorem apply_is_two_separate_statements:
  assumes "signature_header (headers req) = Inr sig"
    and "verify cfg constructEvent (body req) sig = Inr ev"
    and "event_type ev = ''checkout.session.completed''"
    and "session_user (data_object ev) = Some u" and "u \<noteq> []"
  shows "snd (webhook cfg constructEvent f req d) =
     (if update_fails f then d
      else if insert_fails f \<or>
              (''stripe'', session_id (data_object ev)) \<in> set (map ledger_key (purchases d))
      then d\<lparr>users := set_premium u (users d)\<rparr>
      else \<lparr>users = set_premium u (users d),
            purchases = purchases d @ [purchase_row (data_object ev)]\<rparr>)"
  using assms
  by (simp add: webhook_verified run_try_statements truthy_def key_of_purchase_row)

theorem apply_is_two_separate_statements_witness:
  "signature_header (headers req_good) = Inr (Some ''good'') \<and>
   verify cfg_stripe toy_verifier (body req_good) (Some ''good'') = Inr ev1 \<and>
   event_type ev1 = ''checkout.session.completed'' \<and>
   session_user (data_object ev1) = Some ''u1'' \<and>
   snd (webhook cfg_stripe toy_verifier no_faults req_good db1) =
     \<lparr>users = [user1\<lparr>is_premium := True\<rparr>], purchases = [purchase_row sess1]\<rparr>"
  using apply_is_two_separate_statements
    [of req_good "Some ''good''" cfg_stripe toy_verifier ev1 "''u1''" no_faults db1]
  by (simp add: signature_header_def verify_def toy_verifier_def req_good_def cfg_stripe_def
      stripe_def truthy_def ev1_def sess1_def session_user_def db1_def user1_def
      set_premium_def no_faults_def)

text \<open>
  C4 as written asks for both effects or neither. With an insert that the engine fails,
  user \<open>u1\<close> becomes premium and the ledger stays empty.
\<close>

theorem apply_not_atomic_counterexample:
  "users db1 = [user1] \<and> \<not> is_premium user1 \<and>
   users (snd (webhook cfg_stripe toy_verifier \<lparr>update_fails = False, insert_fails = True\<rparr>
     req_good db1)) = [user1\<lparr>is_premium := True\<rparr>] \<and>
   purchases (snd (webhook cfg_stripe toy_verifier \<lparr>update_fails = False, insert_fails = True\<rparr>
     req_good db1)) = []"
  by (simp add: webhook_def signature_header_def verify_def toy_verifier_def req_good_def
      cfg_stripe_def stripe_def truthy_def ev1_def sess1_def statements_def session_user_def
      db1_def user1_def set_premium_def)


text \<open>The premium update is idempotent, and a read after it finds the flag set.\<close>

lemma set_premium_twice: "set_premium u (set_premium u us) = set_premium u us"
  by (induction us) (simp_all add: set_premium_def)

lemma find_after_set_premium:
  "u \<in> set (map uid us) \<Longrightarrow>
   \<exists>row. find (\<lambda>x. uid x = u) (set_premium u us) = Some row \<and> uid row = u \<and> is_premium row"
  by (induction us) (auto simp: set_premium_def)

lemma set_premium_noop:
  "list_all (\<lambda>x. uid x = u \<longrightarrow> is_premium x) us \<Longrightarrow> set_premium u us = us"
  by (induction us) (simp_all add: set_premium_def)

lemma webhook_users:
  assumes "signature_header (headers req) = Inr sig"
    and "verify cfg constructEvent (body req) sig = Inr ev"
    and "event_type ev = ''checkout.session.completed''"
    and "session_user (data_object ev) = Some u" and "u \<noteq> []"
  shows "users (snd (webhook cfg constructEvent f req d)) =
         (if update_fails f then users d else set_premium u (users d))"
  using assms by (simp add: webhook_verified run_try_statements truthy_def)

text \<open>
  C5, as the code has it. After a \<open>checkout.session.completed\<close> event that the handler
  has verified and whose metadata names a registered user \<open>u\<close>, when the storage engine
  does not fail the update, \<open>GET /api/me/u\<close> returns that user's row with
  \<open>is_premium: true\<close>, whether or not the ledger insert that follows goes through.
  Delivering the event again, with any failures, leaves the users as they are: setting the
  flag on a premium user changes nothing.
\<close>

theorem completed_event_grants_premium:
  assumes "signature_header (headers req) = Inr sig"
    and "verify cfg constructEvent (body req) sig = Inr ev"
    and "event_type ev = ''checkout.session.completed''"
    and "session_user (data_object ev) = Some u" and "u \<noteq> []"
    and "u \<in> set (map uid (users d))"
    and "\<not> update_fails f"
  shows "(\<exists>row. me False u (snd (webhook cfg constructEvent f req d)) = Reply 200 (UserRow (Some row)) \<and>
            uid row = u \<and> is_premium row \<and>
            reply_json (me False u (snd (webhook cfg constructEvent f req d))) =
              Some [(''id'', Opaque u), (''email'', Text (email row)),
                    (''points'', Numeric (points row)), (''level'', Numeric (level row)),
                    (''is_premium'', Flag True)]) \<and>
         users (snd (webhook cfg constructEvent f' req (snd (webhook cfg constructEvent f req d)))) =
           users (snd (webhook cfg constructEvent f req d))"
proof -
  have first: "users (snd (webhook cfg constructEvent f req d)) = set_premium u (users d)"
    using webhook_users [OF assms(1-5)] assms(7) by simp
  have again: "users (snd (webhook cfg constructEvent f' req (snd (webhook cfg constructEvent f req d)))) =
      (if update_fails f' then set_premium u (users d) else set_premium u (set_premium u (users d)))"
    using webhook_users [OF assms(1-5)] first by simp
  obtain row where row: "find (\<lambda>x. uid x = u) (set_premium u (users d)) = Some row"
      "uid row = u" "is_premium row"
    using find_after_set_premium [OF assms(6)] by blast
  have "me False u (snd (webhook cfg constructEvent f req d)) = Reply 200 (UserRow (Some row))"
    using row(1) first by (simp add: me_def)
  then show ?thesis
    using row(2,3) first again by (auto simp: set_premium_twice user_json_def)
qed

theorem completed_event_grants_premium_witness:
  "signature_header (headers req_good) = Inr (Some ''good'') \<and>
   verify cfg_stripe toy_verifier (body req_good) (Some ''good'') = Inr ev1 \<and>
   event_type ev1 = ''checkout.session.completed'' \<and>
   session_user (data_object ev1) = Some ''u1'' \<and>
   ''u1'' \<in> set (map uid (users db1)) \<and>
   me False ''u1'' (snd (webhook cfg_stripe toy_verifier no_faults req_good db1)) =
     Reply 200 (UserRow (Some (user1\<lparr>is_premium := True\<rparr>)))"
  using completed_event_grants_premium
    [where req = req_good and sig = "Some ''good''" and cfg = cfg_stripe
       and constructEvent = toy_verifier and ev = ev1 and u = "''u1''" and d = db1
       and f = no_faults and f' = no_faults]
  by (simp add: signature_header_def verify_def toy_verifier_def req_good_def cfg_stripe_def
      stripe_def truthy_def ev1_def sess1_def session_user_def db1_def user1_def
      set_premium_def no_faults_def me_def webhook_def statements_def)

text \<open>
  C5 as written promises \<open>isPremium: true\<close> after a valid event. The row is sent under
  the column name: after a verified event the reply has the key \<open>is_premium\<close> and no
  key \<open>isPremium\<close>. And a delivery with a valid signature is not verified when it comes
  through the middleware (see C2): the flag of its user stays false.
\<close>

theorem valid_event_premium_counterexample:
  "reply_json (me False ''u1'' (snd (webhook cfg_stripe toy_verifier no_faults req_good db1))) =
     Some [(''id'', Opaque ''u1''), (''email'', Text ''a@b.c''), (''points'', Numeric 0),
           (''level'', Numeric 1), (''is_premium'', Flag True)] \<and>
   verify cfg_stripe raw_verifier (Raw (http_payload delivery1))
     (http_headers delivery1 ''stripe-signature'') = Inr ev1 \<and>
   session_user (data_object ev1) = Some ''u1'' \<and>
   reply_json (me False ''u1''
     (snd (webhook_route parsers1 cfg_stripe raw_verifier no_faults delivery1 db1))) =
     Some [(''id'', Opaque ''u1''), (''email'', Text ''a@b.c''), (''points'', Numeric 0),
           (''level'', Numeric 1), (''is_premium'', Flag False)]"
  by (simp add: webhook_route_def jsonParser_def rawParser_def parsers1_def delivery1_def
      webhook_def signature_header_def verify_def raw_verifier_def toy_verifier_def
      req_good_def cfg_stripe_def stripe_def truthy_def ev1_def sess1_def session_user_def
      db1_def user1_def set_premium_def no_faults_def me_def statements_def user_json_def)

text \<open>
  C10. A verified \<open>checkout.session.completed\<close> event whose session id is not in the
  ledger yet, with a storage engine that fails neither statement: one row is appended,
  for provider \<open>stripe\<close> and the session id, with amount 499 when the session has no
  \<open>amount_total\<close>, currency \<open>eur\<close> when it has no \<open>currency\<close>, and a null
  \<open>user_id\<close> when \<open>metadata.userId\<close> is absent or empty; values that are present
  (and not zero or empty) are recorded as they are.
\<close>

theorem purchase_row_defaults:
  assumes "signature_header (headers req) = Inr sig"
    and "verify cfg constructEvent (body req) sig = Inr ev"
    and "event_type ev = ''checkout.session.completed''"
    and "\<not> update_fails f" and "\<not> insert_fails f"
    and "(''stripe'', session_id (data_object ev)) \<notin> set (map ledger_key (purchases d))"
  shows "\<exists>row. purchases (snd (webhook cfg constructEvent f req d)) = purchases d @ [row] \<and>
           provider row = ''stripe'' \<and> provider_id row = session_id (data_object ev) \<and>
           (amount_total (data_object ev) = None \<longrightarrow> amount row = 499) \<and>
           (session_currency (data_object ev) = None \<longrightarrow> currency row = ''eur'') \<and>
           (\<not> truthy (session_user (data_object ev)) \<longrightarrow> user_id row = None) \<and>
           (\<forall>a. amount_total (data_object ev) = Some a \<and> a \<noteq> 0 \<longrightarrow> amount row = a) \<and>
           (\<forall>c. session_currency (data_object ev) = Some c \<and> c \<noteq> [] \<longrightarrow> currency row = c) \<and>
           (truthy (session_user (data_object ev)) \<longrightarrow> user_id row = session_user (data_object ev))"
proof -
  have "purchases (snd (webhook cfg constructEvent f req d)) =
        purchases d @ [purchase_row (data_object ev)]"
    using assms by (simp add: webhook_verified run_try_statements key_of_purchase_row)
  then show ?thesis
    by (intro exI [of _ "purchase_row (data_object ev)"]) (simp add: purchase_row_def truthy_def)
qed

theorem purchase_row_defaults_witness:
  "signature_header (headers req_good) = Inr (Some ''good'') \<and>
   verify cfg_stripe verifier_anon (body req_good) (Some ''good'') =
     Inr \<lparr>event_type = ''checkout.session.completed'', data_object = sess_anon\<rparr> \<and>
   (''stripe'', ''cs_2'') \<notin> set (map ledger_key (purchases db1)) \<and>
   amount_total sess_anon = None \<and> session_currency sess_anon = None \<and>
   \<not> truthy (session_user sess_anon) \<and>
   purchases (snd (webhook cfg_stripe verifier_anon no_faults req_good db1)) =
     [\<lparr>user_id = None, provider = ''stripe'', provider_id = ''cs_2'', amount = 499,
       currency = ''eur''\<rparr>]"
  using purchase_row_defaults
    [where req = req_good and sig = "Some ''good''" and cfg = cfg_stripe
       and constructEvent = verifier_anon
       and ev = "\<lparr>event_type = ''checkout.session.completed'', data_object = sess_anon\<rparr>"
       and d = db1 and f = no_faults]
  by (simp add: signature_header_def verify_def verifier_anon_def req_good_def cfg_stripe_def
      stripe_def truthy_def sess_anon_def session_user_def db1_def
      no_faults_def webhook_def statements_def purchase_row_def)

section \<open>Claims about POST /api/translate\<close>

text \<open>
  C6, as the code has it. For a request with the three fields, both adapters configured and
  a secondary that answers with a non-empty \<open>translatedText\<close>: when the primary's call
  resolves and its payload has no data, no list of translations or no (truthy) first entry,
  the response is the secondary's, tagged \<open>libre\<close>; when the payload has a first entry,
  the response is that entry's text, tagged \<open>deepl\<close>, also when the text is missing or
  empty; when the primary's call throws, the \<open>catch\<close> of line 34 answers with status 500.
\<close>

theorem translate_secondary_after_empty_primary:
  assumes "truthy (q b)" and "truthy (source b)" and "truthy (target b)"
    and "truthy (DEEPL_API_KEY cfg)" and "truthy (LIBRETRANSLATE_URL cfg)"
    and "libre_post up (libre_endpoint (the (LIBRETRANSLATE_URL cfg))) (the (q b))
           (the (source b)) (the (target b)) = Resolved (Some (LibreData (Some t)))"
    and "t \<noteq> []"
  shows "case deepl_post up (the (DEEPL_API_KEY cfg)) (the (q b)) (toUpperCase (the (source b)))
           (toUpperCase (the (target b))) of
           Resolved r \<Rightarrow>
             (case deepl_first r of
                None \<Rightarrow> translate toUpperCase cfg up b = Reply 200 (Translation (Some t) ''libre'')
              | Some i \<Rightarrow>
                  translate toUpperCase cfg up b = Reply 200 (Translation (item_text i) ''deepl''))
         | Rejected \<Rightarrow>
             translate toUpperCase cfg up b = Reply 500 (ErrorJson ''Translation failed'')"
  using assms
  by (auto simp: translate_def deepl_step_def libre_step_def libre_text_def truthy_def
      split: awaited.splits option.splits)

theorem translate_secondary_after_empty_primary_witness:
  "deepl_post up_empty ''key'' ''Hello'' (upper_ascii ''en'') (upper_ascii ''de'') =
     Resolved (Some (DeeplData (Some []))) \<and>
   deepl_first (Some (DeeplData (Some []))) = None \<and>
   libre_post up_empty (libre_endpoint ''http://lt'') ''Hello'' ''en'' ''de'' =
     Resolved (Some (LibreData (Some ''Hallo''))) \<and>
   translate upper_ascii cfg_both up_empty hello =
     Reply 200 (Translation (Some ''Hallo'') ''libre'')"
  using translate_secondary_after_empty_primary
    [where b = hello and cfg = cfg_both and up = up_empty and t = "''Hallo''"
       and toUpperCase = upper_ascii]
  by (simp add: cfg_both_def up_empty_def hello_def truthy_def deepl_first_def)

text \<open>
  C6 as written counts a primary that throws, and any malformed payload, as a soft failure.
  With a secondary that is configured and would translate: a primary whose call is rejected
  gives the error, and a primary whose first entry has no text gives a reply tagged
  \<open>deepl\<close> without a translation.
\<close>

theorem translate_primary_throws_counterexample:
  "truthy (LIBRETRANSLATE_URL cfg_both) \<and>
   libre_post up_throws (libre_endpoint (the (LIBRETRANSLATE_URL cfg_both))) ''Hello'' ''en'' ''de'' =
     Resolved (Some (LibreData (Some ''Hallo''))) \<and>
   deepl_post up_throws (the (DEEPL_API_KEY cfg_both)) ''Hello'' ''EN'' ''DE'' = Rejected \<and>
   translate upper_ascii cfg_both up_throws hello = Reply 500 (ErrorJson ''Translation failed'') \<and>
   libre_post up_textless (libre_endpoint (the (LIBRETRANSLATE_URL cfg_both))) ''Hello'' ''en'' ''de'' =
     Resolved (Some (LibreData (Some ''Hallo''))) \<and>
   deepl_post up_textless (the (DEEPL_API_KEY cfg_both)) ''Hello'' ''EN'' ''DE'' =
     Resolved (Some (DeeplData (Some [Some (Item None)]))) \<and>
   translate upper_ascii cfg_both up_textless hello = Reply 200 (Translation None ''deepl'')"
  by (simp add: translate_def deepl_step_def deepl_first_def cfg_both_def up_throws_def
      up_textless_def hello_def truthy_def)

text \<open>
  C7, as the code has it. For a request with the three fields, when each adapter is either
  not configured or resolves without an answer the code takes (the primary with no data, no
  list of translations or no truthy first entry; the secondary with no data or a missing or
  empty \<open>translatedText\<close>), the response is the input text behind the fixed marker,
  tagged \<open>none\<close>.
\<close>

theorem translate_fallback:
  assumes "truthy (q b)" and "truthy (source b)" and "truthy (target b)"
    and "\<not> truthy (DEEPL_API_KEY cfg) \<or>
         (\<exists>r. deepl_post up (the (DEEPL_API_KEY cfg)) (the (q b)) (toUpperCase (the (source b)))
            (toUpperCase (the (target b))) = Resolved r \<and> deepl_first r = None)"
    and "\<not> truthy (LIBRETRANSLATE_URL cfg) \<or>
         (\<exists>r. libre_post up (libre_endpoint (the (LIBRETRANSLATE_URL cfg))) (the (q b))
            (the (source b)) (the (target b)) = Resolved r \<and> libre_text r = None)"
  shows "translate toUpperCase cfg up b =
         Reply 200 (Translation (Some (marker @ the (q b))) ''none'')"
  using assms
  by (auto simp: translate_def deepl_step_def libre_step_def)

theorem translate_fallback_witness:
  "translate upper_ascii cfg_none up_throws hello =
     Reply 200 (Translation (Some (marker @ ''Hello'')) ''none'') \<and>
   deepl_first (Some (DeeplData (Some []))) = None \<and>
   libre_text (Some (LibreData (Some ''''))) = None \<and>
   translate upper_ascii cfg_both up_all_empty hello =
     Reply 200 (Translation (Some (marker @ ''Hello'')) ''none'')"
  using translate_fallback
      [where b = hello and cfg = cfg_none and up = up_throws and toUpperCase = upper_ascii]
    translate_fallback
      [where b = hello and cfg = cfg_both and up = up_all_empty and toUpperCase = upper_ascii]
  by (simp add: cfg_none_def cfg_both_def up_all_empty_def hello_def truthy_def deepl_first_def
      libre_text_def)

text \<open>
  C7 as written gives the fallback whenever the configured adapters throw or answer with a
  malformed payload. With the primary as the only adapter: a call that is rejected gives
  the error, and a first entry without a text gives a reply tagged \<open>deepl\<close>.
\<close>

theorem translate_only_adapter_throws_counterexample:
  "\<not> truthy (LIBRETRANSLATE_URL cfg_deepl) \<and>
   deepl_post up_throws (the (DEEPL_API_KEY cfg_deepl)) ''Hello'' ''EN'' ''DE'' = Rejected \<and>
   translate upper_ascii cfg_deepl up_throws hello = Reply 500 (ErrorJson ''Translation failed'') \<and>
   deepl_post up_textless (the (DEEPL_API_KEY cfg_deepl)) ''Hello'' ''EN'' ''DE'' =
     Resolved (Some (DeeplData (Some [Some (Item None)]))) \<and>
   translate upper_ascii cfg_deepl up_textless hello = Reply 200 (Translation None ''deepl'')"
  by (simp add: translate_def deepl_step_def deepl_first_def cfg_deepl_def up_throws_def
      up_textless_def hello_def truthy_def)

section \<open>Claims about GET /api/certificate/:name/:level\<close>

lemma length_TITLES: "length TITLES = 20"
  by (simp add: TITLES_def)

text \<open>
  Line 79 clamps every number but \<open>NaN\<close>; for a level that \<open>Number\<close> reads as an
  integer, the name in the header of line 82 carries the clamped level and line 87 would
  find a title for it.
\<close>

lemma titleIndex_range:
  "titleIndex Number lvl = NaN \<or>
   (\<exists>x. titleIndex Number lvl = Num x \<and> 1 \<le> x \<and> x \<le> 20)"
  by (cases "Number lvl") (auto simp: titleIndex_def)

lemma titleIndex_integer:
  assumes "lvl \<noteq> []" and "Number lvl = Num (of_int n)"
  shows "titleIndex Number lvl = Num (of_int (max 1 (min 20 n)))"
  using assms by (simp add: titleIndex_def min_def max_def)

lemma show_num_small_integer:
  assumes "0 \<le> k" and "k \<le> 20"
  shows "show_num number_text (Num (of_int k)) = show_nat (nat k)"
proof -
  have "(of_int k :: rat) \<le> of_int 20" using assms(2) by (simp only: of_int_le_iff)
  then have "(of_int k :: rat) < 10 ^ 21" by simp
  moreover have "(0 :: rat) \<le> of_int k" using assms(1) by simp
  ultimately show ?thesis by (simp add: show_num_def)
qed

lemma title_at_small_integer:
  assumes "1 \<le> k" and "k \<le> 20"
  shows "title_at (Num (of_int k)) = Some (TITLES ! nat (k - 1))"
proof -
  have "(1 :: rat) \<le> of_int k" using assms(1) by simp
  moreover have "(of_int k :: rat) \<le> 20" using assms(2) by simp
  ultimately show ?thesis by (simp add: title_at_def length_TITLES)
qed

lemma certificate_headers_integer_level:
  assumes "lvl \<noteq> []" and "Number lvl = Num (of_int n)"
  shows \<open>content_type (certificate Number number_text lvl) = ''application/pdf'' \<and>
     content_disposition (certificate Number number_text lvl) =
       ''attachment; filename="nfj_certificate_level_'' @
         show_nat (nat (max 1 (min 20 n))) @ ''.pdf"'' \<and>
     title_at (titleIndex Number lvl) = Some (TITLES ! nat (max 1 (min 20 n) - 1))\<close>
proof -
  have idx: "titleIndex Number lvl = Num (of_int (max 1 (min 20 n)))"
    using assms by (rule titleIndex_integer)
  have "show_num number_text (Num (of_int (max 1 (min 20 n)))) = show_nat (nat (max 1 (min 20 n)))"
    by (rule show_num_small_integer) simp_all
  moreover have "title_at (Num (of_int (max 1 (min 20 n)))) =
      Some (TITLES ! nat (max 1 (min 20 n) - 1))"
    by (rule title_at_small_integer) simp_all
  ultimately show ?thesis
    by (simp only: certificate_def disposition_def idx certificate_result.simps simp_thms)
qed

text \<open>
  C8. The claim: every request gets a response with \<open>Content-Type: application/pdf\<close> and
  the attachment's file name for the clamped level. For level 5, which the runtime reads as
  the number 5, the handler has set the two headers (the file name being
  \<open>nfj_certificate_level_5.pdf\<close>) when line 83 throws; it sends no response.
\<close>

theorem certificate_sends_no_document:
  \<open>certificate (\<lambda>s. if s = ''5'' then Num 5 else NaN) number_text ''5'' =
     \<lparr>content_type = ''application/pdf'',
      content_disposition = ''attachment; filename="nfj_certificate_level_5.pdf"'',
      ended = Uncaught ''PDFDocument called without new''\<rparr>\<close>
  by (simp add: certificate_def disposition_def titleIndex_def show_num_def show_nat.simps)

text \<open>The handler ends the same way for every level.\<close>

lemma certificate_always_throws:
  "ended (certificate Number number_text lvl) = Uncaught ''PDFDocument called without new''"
  by (simp add: certificate_def)

section \<open>Claims about POST /api/register\<close>

lemma rewrite_email_noop:
  "map (\<lambda>v. if email v = e then v\<lparr>email := e\<rparr> else v) us = us"
  by (induction us) auto

lemma find_email: "find (\<lambda>u. email u = e) us = Some u \<Longrightarrow> u\<lparr>email := e\<rparr> = u"
  by (induction us) (auto split: if_splits)

lemma register_existing:
  assumes "e \<noteq> []" and "find (\<lambda>u. email u = e) (users d) = Some u"
  shows "register False fresh (Some e) d = (Reply 200 (UserRow (Some u)), d)"
  using assms by (simp add: register_def truthy_def rewrite_email_noop find_email cong: if_cong)

lemma register_new:
  assumes "e \<noteq> []" and "find (\<lambda>u. email u = e) (users d) = None"
  shows "register False fresh (Some e) d =
         (Reply 200 (UserRow (Some (fresh\<lparr>email := e\<rparr>))), d\<lparr>users := users d @ [fresh\<lparr>email := e\<rparr>]\<rparr>)"
  using assms by (simp add: register_def truthy_def)

lemma find_appended:
  "find P xs = None \<Longrightarrow> P x \<Longrightarrow> find P (xs @ [x]) = Some x"
  by (induction xs) (auto split: if_splits)

text \<open>
  C9. Registering a non-empty email twice, with a storage engine that fails neither
  statement: the second response is the first one (the same row, so the same id), the
  second call leaves the store as the first call left it, the first call leaves one row
  with that email when there was none and adds none when there was one, and registering an
  email that is already there changes nothing and returns the existing row.
\<close>

theorem register_twice_same_row:
  assumes "e \<noteq> []"
  shows "fst (register False fresh2 (Some e) (snd (register False fresh1 (Some e) d))) =
           fst (register False fresh1 (Some e) d) \<and>
         snd (register False fresh2 (Some e) (snd (register False fresh1 (Some e) d))) =
           snd (register False fresh1 (Some e) d) \<and>
         (\<exists>row. fst (register False fresh1 (Some e) d) = Reply 200 (UserRow (Some row)) \<and>
            email row = e \<and>
            length (filter (\<lambda>u. email u = e) (users (snd (register False fresh1 (Some e) d)))) =
              max 1 (length (filter (\<lambda>u. email u = e) (users d)))) \<and>
         (\<forall>u. find (\<lambda>u. email u = e) (users d) = Some u \<longrightarrow>
            register False fresh1 (Some e) d = (Reply 200 (UserRow (Some u)), d))"
proof (cases "find (\<lambda>u. email u = e) (users d)")
  case None
  let ?row = "fresh1\<lparr>email := e\<rparr>"
  have first: "register False fresh1 (Some e) d =
      (Reply 200 (UserRow (Some ?row)), d\<lparr>users := users d @ [?row]\<rparr>)"
    using register_new [OF assms None] .
  have "find (\<lambda>u. email u = e) (users (d\<lparr>users := users d @ [?row]\<rparr>)) = Some ?row"
    using find_appended [OF None, of ?row] by simp
  then have second: "register False fresh2 (Some e) (d\<lparr>users := users d @ [?row]\<rparr>) =
      (Reply 200 (UserRow (Some ?row)), d\<lparr>users := users d @ [?row]\<rparr>)"
    by (rule register_existing [OF assms])
  have "filter (\<lambda>u. email u = e) (users d) = []"
    using None by (simp add: find_None_iff filter_empty_conv)
  with first second None show ?thesis by simp
next
  case (Some u)
  have first: "register False fresh1 (Some e) d = (Reply 200 (UserRow (Some u)), d)"
    using register_existing [OF assms Some] .
  have second: "register False fresh2 (Some e) d = (Reply 200 (UserRow (Some u)), d)"
    using register_existing [OF assms Some] .
  have "email u = e" and "u \<in> set (users d)"
    using Some by (auto simp: find_Some_iff)
  then have "filter (\<lambda>u. email u = e) (users d) \<noteq> []"
    by (auto simp: filter_empty_conv)
  then have "1 \<le> length (filter (\<lambda>u. email u = e) (users d))"
    by (cases "filter (\<lambda>u. email u = e) (users d)") simp_all
  with first second Some \<open>email u = e\<close> show ?thesis by (simp add: max_def)
qed

theorem register_twice_same_row_witness:
  "fst (register False (user1\<lparr>uid := ''u2''\<rparr>) (Some ''x@y.z'') db1) =
     Reply 200 (UserRow (Some (user1\<lparr>uid := ''u2'', email := ''x@y.z''\<rparr>))) \<and>
   fst (register False (user1\<lparr>uid := ''u3''\<rparr>) (Some ''x@y.z'')
          (snd (register False (user1\<lparr>uid := ''u2''\<rparr>) (Some ''x@y.z'') db1))) =
     Reply 200 (UserRow (Some (user1\<lparr>uid := ''u2'', email := ''x@y.z''\<rparr>))) \<and>
   users (snd (register False (user1\<lparr>uid := ''u3''\<rparr>) (Some ''x@y.z'')
          (snd (register False (user1\<lparr>uid := ''u2''\<rparr>) (Some ''x@y.z'') db1)))) =
     [user1, user1\<lparr>uid := ''u2'', email := ''x@y.z''\<rparr>]"
  using register_twice_same_row
    [where e = "''x@y.z''" and ?fresh1.0 = "user1\<lparr>uid := ''u2''\<rparr>"
       and ?fresh2.0 = "user1\<lparr>uid := ''u3''\<rparr>" and d = db1]
  by (simp add: register_def truthy_def db1_def user1_def)

end
